theory Spec2Isabelle
  imports Main "HOL-Library.AList"
begin

section \<open>Values, dictionaries and exceptions\<close>

text \<open>
  JSON values as they occur in token claim sets. Python's \<^verbatim>\<open>None\<close> and JSON
  \<^verbatim>\<open>null\<close> are both \<open>JNull\<close>. Numbers are integers (JSON floats are outside the
  model). Time stamps are whole seconds since the epoch (the unit in which the token
  library stores and compares \<^verbatim>\<open>exp\<close>). A character is a code point below 256.
\<close>

datatype json = JNull | JBool bool | JNum int | JStr string
  | JList "json list" | JObj "(string \<times> json) list"

text \<open>A Python \<^verbatim>\<open>dict\<close> with string keys: an association list in insertion order.\<close>

type_synonym dict = "(string \<times> json) list"

text \<open>\<^verbatim>\<open>d.get(k)\<close>: the value, or \<^verbatim>\<open>None\<close> when the key is missing.\<close>

definition py_get :: "dict \<Rightarrow> string \<Rightarrow> json" where
  "py_get d k = (case map_of d k of None \<Rightarrow> JNull | Some v \<Rightarrow> v)"

text \<open>\<^verbatim>\<open>d.update({k1: v1, ...})\<close>: existing keys keep their place, new keys are appended.\<close>

definition dict_update :: "dict \<Rightarrow> dict \<Rightarrow> dict" where
  "dict_update d kvs = fold (\<lambda>(k, v). AList.update k v) kvs d"

text \<open>Python truthiness of a value (\<^verbatim>\<open>if not v\<close>).\<close>

fun truthy :: "json \<Rightarrow> bool" where
  "truthy JNull = False"
| "truthy (JBool b) = b"
| "truthy (JNum n) = (n \<noteq> 0)"
| "truthy (JStr s) = (s \<noteq> [])"
| "truthy (JList l) = (l \<noteq> [])"
| "truthy (JObj d) = (d \<noteq> [])"

text \<open>
  The exceptions that the authentication code raises or lets through. The first three
  are \<^verbatim>\<open>jose.JWTError\<close> and its two subclasses; \<open>TypeError\<close> is Python's;
  \<open>MultipleResultsFound\<close>, \<open>IntegrityError\<close> and \<open>DBAPIError\<close> come from the
  database layer.
\<close>

datatype error = JWTError | ExpiredSignatureError | JWTClaimsError | TypeError
  | AuthenticationError string | MultipleResultsFound | IntegrityError | DBAPIError

text \<open>\<^verbatim>\<open>isinstance(e, JWTError)\<close>: what \<^verbatim>\<open>except JWTError\<close> catches.\<close>

definition is_JWTError :: "error \<Rightarrow> bool" where
  "is_JWTError e = (e = JWTError \<or> e = ExpiredSignatureError \<or> e = JWTClaimsError)"

text \<open>
  \<^verbatim>\<open>str.isspace\<close> on the code points below 256: tab to carriage return, the four
  separators, space, next line (U+0085) and no-break space (U+00A0).
\<close>

definition isspace :: "char \<Rightarrow> bool" where
  "isspace c = (let n = (of_char c :: nat)
                in (9 \<le> n \<and> n \<le> 13) \<or> (28 \<le> n \<and> n \<le> 31) \<or> n = 32 \<or> n = 133 \<or> n = 160)"

definition strip :: "string \<Rightarrow> string" where
  "strip s = rev (dropWhile isspace (rev (dropWhile isspace s)))"

text \<open>
  Python's \<^verbatim>\<open>int(v)\<close> on a JSON value. A string is stripped, may carry one sign, and
  consists of decimal digits with single underscores between digits; any other
  string is a \<^verbatim>\<open>ValueError\<close>. \<^verbatim>\<open>None\<close>, lists and objects are a \<^verbatim>\<open>TypeError\<close>.
  (The interpreter's limit on the length of digit strings is not modelled.)
\<close>

definition is_digit :: "char \<Rightarrow> bool" where
  "is_digit c = (let n = (of_char c :: nat) in 48 \<le> n \<and> n \<le> 57)"

definition digit_value :: "char \<Rightarrow> int" where
  "digit_value c = int (of_char c) - 48"

fun parse_digits :: "string \<Rightarrow> int \<Rightarrow> int option" where
  "parse_digits [] acc = Some acc"
| "parse_digits [c] acc = (if is_digit c then Some (10 * acc + digit_value c) else None)"
| "parse_digits (c # d # ds) acc =
     (if is_digit c then parse_digits (d # ds) (10 * acc + digit_value c)
      else if c = CHR ''_'' \<and> is_digit d then parse_digits ds (10 * acc + digit_value d)
      else None)"

definition int_of_str :: "string \<Rightarrow> int option" where
  "int_of_str s =
     (let t = strip s;
          (neg, body) = (case t of
                           [] \<Rightarrow> (False, t)
                         | c # r \<Rightarrow> if c = CHR ''-'' then (True, r)
                                    else if c = CHR ''+'' then (False, r)
                                    else (False, t))
      in case body of
           [] \<Rightarrow> None
         | c # cs \<Rightarrow>
             if is_digit c
             then map_option (\<lambda>n. if neg then - n else n) (parse_digits cs (digit_value c))
             else None)"

datatype py_int_result = IntOf int | IntValueError | IntTypeError

fun py_int :: "json \<Rightarrow> py_int_result" where
  "py_int (JNum n) = IntOf n"
| "py_int (JBool b) = IntOf (if b then 1 else 0)"
| "py_int (JStr s) = (case int_of_str s of None \<Rightarrow> IntValueError | Some n \<Rightarrow> IntOf n)"
| "py_int JNull = IntTypeError"
| "py_int (JList l) = IntTypeError"
| "py_int (JObj d) = IntTypeError"

text \<open>The fields of \<^verbatim>\<open>app.core.config.settings\<close> that the authentication code reads.\<close>

record settings =
  SECRET_KEY :: string
  ALGORITHM :: string
  ACCESS_TOKEN_EXPIRE_MINUTES :: int
  REFRESH_TOKEN_EXPIRE_DAYS :: int
  GOOGLE_CLIENT_ID :: "string option"

section \<open>The token library boundary\<close>

text \<open>
  Token strings are modelled symbolically. A string either is a compact signed token,
  which carries the algorithm named in its header, the key under which its signature
  verifies, and its claim set, or it is anything else (\<open>Malformed\<close>: not three
  base64 segments, a payload that is no JSON object, a signature that verifies under
  no key). A token signed with a different key is \<open>JWS alg k' claims\<close> with
  \<open>k' \<noteq> k\<close>.

  \<open>jwt_encode\<close> and \<open>jwt_decode\<close> stand for \<^verbatim>\<open>jose.jwt.encode\<close> and
  \<^verbatim>\<open>jose.jwt.decode\<close>, the latter as the code calls it: with the key and the list of
  algorithms, and with no audience, issuer, subject or access token. A \<^verbatim>\<open>datetime\<close>
  under \<^verbatim>\<open>exp\<close> is stored by the library as whole seconds. The configured algorithm
  is taken to be one the library supports with a shared secret (the default is HS256).

  After the signature the library validates the registered claims in the order
  \<^verbatim>\<open>iat\<close>, \<^verbatim>\<open>nbf\<close>, \<^verbatim>\<open>exp\<close>, \<^verbatim>\<open>aud\<close>, \<^verbatim>\<open>sub\<close>, \<^verbatim>\<open>jti\<close>, \<^verbatim>\<open>at_hash\<close> (the issuer
  is checked only when one is passed). Each check is skipped when its claim is missing.
  The three time claims are converted with \<^verbatim>\<open>int(...)\<close> inside
  \<^verbatim>\<open>try ... except ValueError\<close>, so a \<^verbatim>\<open>TypeError\<close> of the conversion is not turned
  into a \<^verbatim>\<open>JWTClaimsError\<close>. The readings of the clock taken during one call are
  modelled by the one reading \<open>now\<close>.
\<close>

datatype token = Malformed string | JWS string string dict

definition jwt_encode :: "dict \<Rightarrow> string \<Rightarrow> string \<Rightarrow> token" where
  "jwt_encode claims key algorithm = JWS algorithm key claims"

definition validate_iat :: "dict \<Rightarrow> error option" where
  "validate_iat claims =
     (case map_of claims ''iat'' of
        None \<Rightarrow> None
      | Some v \<Rightarrow> (case py_int v of
                     IntOf n \<Rightarrow> None
                   | IntValueError \<Rightarrow> Some JWTClaimsError
                   | IntTypeError \<Rightarrow> Some TypeError))"

definition validate_nbf :: "int \<Rightarrow> dict \<Rightarrow> error option" where
  "validate_nbf now claims =
     (case map_of claims ''nbf'' of
        None \<Rightarrow> None
      | Some v \<Rightarrow> (case py_int v of
                     IntOf n \<Rightarrow> if now < n then Some JWTClaimsError else None
                   | IntValueError \<Rightarrow> Some JWTClaimsError
                   | IntTypeError \<Rightarrow> Some TypeError))"

definition validate_exp :: "int \<Rightarrow> dict \<Rightarrow> error option" where
  "validate_exp now claims =
     (case map_of claims ''exp'' of
        None \<Rightarrow> None
      | Some v \<Rightarrow> (case py_int v of
                     IntOf e \<Rightarrow> if e < now then Some ExpiredSignatureError else None
                   | IntValueError \<Rightarrow> Some JWTClaimsError
                   | IntTypeError \<Rightarrow> Some TypeError))"

text \<open>
  No audience is passed, so an \<^verbatim>\<open>aud\<close> claim is rejected whatever it holds: a value
  that is no string and no list of strings is an invalid format, and \<^verbatim>\<open>None\<close> is in
  no list of strings. Likewise an \<^verbatim>\<open>at_hash\<close> claim is rejected because no access
  token is passed to compare it with.
\<close>

definition validate_aud :: "dict \<Rightarrow> error option" where
  "validate_aud claims =
     (case map_of claims ''aud'' of
        None \<Rightarrow> None
      | Some v \<Rightarrow> Some JWTClaimsError)"

definition validate_sub :: "dict \<Rightarrow> error option" where
  "validate_sub claims =
     (case map_of claims ''sub'' of
        None \<Rightarrow> None
      | Some (JStr s) \<Rightarrow> None
      | Some _ \<Rightarrow> Some JWTClaimsError)"

definition validate_jti :: "dict \<Rightarrow> error option" where
  "validate_jti claims =
     (case map_of claims ''jti'' of
        None \<Rightarrow> None
      | Some (JStr s) \<Rightarrow> None
      | Some _ \<Rightarrow> Some JWTClaimsError)"

definition validate_at_hash :: "dict \<Rightarrow> error option" where
  "validate_at_hash claims =
     (case map_of claims ''at_hash'' of
        None \<Rightarrow> None
      | Some v \<Rightarrow> Some JWTClaimsError)"

text \<open>The checks run in order; the first one that raises ends the validation.\<close>

definition validate_claims :: "int \<Rightarrow> dict \<Rightarrow> error option" where
  "validate_claims now claims =
     (case List.map_filter id
             [validate_iat claims, validate_nbf now claims, validate_exp now claims,
              validate_aud claims, validate_sub claims, validate_jti claims,
              validate_at_hash claims] of
        [] \<Rightarrow> None
      | e # es \<Rightarrow> Some e)"

definition jwt_decode :: "int \<Rightarrow> token \<Rightarrow> string \<Rightarrow> string list \<Rightarrow> error + dict" where
  "jwt_decode now tok key algorithms =
     (case tok of
        Malformed s \<Rightarrow> Inl JWTError
      | JWS alg k claims \<Rightarrow>
          if alg \<notin> set algorithms then Inl JWTError
          else if k \<noteq> key then Inl JWTError
          else (case validate_claims now claims of
                  Some e \<Rightarrow> Inl e
                | None \<Rightarrow> Inr claims))"

section \<open>TokenManager\<close>

text \<open>
  \<open>now\<close> is the reading of \<^verbatim>\<open>datetime.utcnow()\<close> taken by the call, in seconds.
  \<open>expires_delta\<close> is the optional \<^verbatim>\<open>timedelta\<close> in seconds; a zero
  \<^verbatim>\<open>timedelta\<close> is falsy in Python and selects the default lifetime as well.
\<close>

definition create_access_token :: "settings \<Rightarrow> int \<Rightarrow> dict \<Rightarrow> int option \<Rightarrow> token" where
  "create_access_token cfg now data expires_delta =
     (let to_encode = data;
          expire = (case expires_delta of
                      Some d \<Rightarrow> if d \<noteq> 0 then now + d
                                else now + 60 * ACCESS_TOKEN_EXPIRE_MINUTES cfg
                    | None \<Rightarrow> now + 60 * ACCESS_TOKEN_EXPIRE_MINUTES cfg);
          to_encode = dict_update to_encode [(''exp'', JNum expire), (''type'', JStr ''access'')]
      in jwt_encode to_encode (SECRET_KEY cfg) (ALGORITHM cfg))"

definition create_refresh_token :: "settings \<Rightarrow> int \<Rightarrow> dict \<Rightarrow> token" where
  "create_refresh_token cfg now data =
     (let to_encode = data;
          expire = now + 86400 * REFRESH_TOKEN_EXPIRE_DAYS cfg;
          to_encode = dict_update to_encode [(''exp'', JNum expire), (''type'', JStr ''refresh'')]
      in jwt_encode to_encode (SECRET_KEY cfg) (ALGORITHM cfg))"

text \<open>
  \<open>verify_token\<close> catches \<^verbatim>\<open>JWTError\<close> (and so its subclasses) and nothing else:
  any other exception of the decoder leaves the function.
\<close>

definition verify_token :: "settings \<Rightarrow> int \<Rightarrow> token \<Rightarrow> error + dict option" where
  "verify_token cfg now tok =
     (case jwt_decode now tok (SECRET_KEY cfg) [ALGORITHM cfg] of
        Inr payload \<Rightarrow> Inr (Some payload)
      | Inl e \<Rightarrow> if is_JWTError e then Inr None else Inl e)"

section \<open>The user table\<close>

text \<open>
  A row of the \<^verbatim>\<open>users\<close> table (class \<^verbatim>\<open>User\<close>). The primary key, a UUID, is
  held as the string \<^verbatim>\<open>str(user.id)\<close>; nullable columns are options; the three flags
  have column defaults and are held as booleans.
\<close>

record user =
  user_id :: string
  email :: string
  full_name :: "string option"
  avatar_url :: "string option"
  google_id :: "string option"
  telegram_id :: "string option"
  github_id :: "string option"
  preferred_language :: "string option"
  timezone :: "string option"
  country :: "string option"
  is_active :: bool
  is_verified :: bool
  is_premium :: bool
  created_at :: "int option"
  updated_at :: "int option"
  last_login :: "int option"

text \<open>
  The table is the list of its rows. The schema declares \<^verbatim>\<open>id\<close> as primary key and
  \<^verbatim>\<open>email\<close>, \<^verbatim>\<open>google_id\<close> as unique (nulls apart); \<open>db_ok\<close> is that invariant.
\<close>

definition db_ok :: "user list \<Rightarrow> bool" where
  "db_ok db \<longleftrightarrow> distinct (map user_id db) \<and> distinct (map email db)
                \<and> distinct (List.map_filter google_id db)"

text \<open>\<^verbatim>\<open>Result.scalar_one_or_none()\<close>: no row, the one row, or an error on several rows.\<close>

definition scalar_one_or_none :: "'a list \<Rightarrow> error + 'a option" where
  "scalar_one_or_none rows =
     (case rows of
        [] \<Rightarrow> Inr None
      | [r] \<Rightarrow> Inr (Some r)
      | r # r' # rs \<Rightarrow> Inl MultipleResultsFound)"

text \<open>
  Column \<^verbatim>\<open>id\<close> is \<^verbatim>\<open>UUID(as_uuid=True)\<close>, and \<open>get_user_by_id\<close> is called with
  \<^verbatim>\<open>payload.get("sub")\<close>, a claim value that goes into the query as it is. The
  database driver (asyncpg, by the configured URL scheme) converts a string parameter
  to a UUID: the string must be 32 to 36 characters long and, dashes apart, consist
  of exactly 32 hexadecimal digits in either case. \<open>uuid_of_str\<close> is that
  conversion, giving the 32 digit values. A string that does not convert makes the
  driver raise, which the session reports as \<^verbatim>\<open>DBAPIError\<close>; so does a parameter
  that is no string. \<^verbatim>\<open>User.id == None\<close> is rendered as \<^verbatim>\<open>IS NULL\<close>, which no row
  satisfies.
\<close>

definition hex_digit :: "char \<Rightarrow> nat option" where
  "hex_digit c =
     (let n = (of_char c :: nat)
      in if 48 \<le> n \<and> n \<le> 57 then Some (n - 48)
         else if 97 \<le> n \<and> n \<le> 102 then Some (n - 87)
         else if 65 \<le> n \<and> n \<le> 70 then Some (n - 55)
         else None)"

definition uuid_of_str :: "string \<Rightarrow> nat list option" where
  "uuid_of_str s =
     (if length s < 32 \<or> 36 < length s then None
      else (case those (map hex_digit (filter (\<lambda>c. c \<noteq> CHR ''-'') s)) of
              None \<Rightarrow> None
            | Some ds \<Rightarrow> if length ds = 32 then Some ds else None))"

definition get_user_by_id :: "user list \<Rightarrow> json \<Rightarrow> error + user option" where
  "get_user_by_id db uid =
     (case uid of
        JNull \<Rightarrow> Inr None
      | JStr s \<Rightarrow>
          (case uuid_of_str s of
             None \<Rightarrow> Inl DBAPIError
           | Some k \<Rightarrow> scalar_one_or_none (filter (\<lambda>u. uuid_of_str (user_id u) = Some k) db))
      | _ \<Rightarrow> Inl DBAPIError)"

definition get_user_by_email :: "user list \<Rightarrow> string \<Rightarrow> error + user option" where
  "get_user_by_email db e = scalar_one_or_none (filter (\<lambda>u. email u = e) db)"

definition get_user_by_google_id :: "user list \<Rightarrow> string \<Rightarrow> error + user option" where
  "get_user_by_google_id db g = scalar_one_or_none (filter (\<lambda>u. google_id u = Some g) db)"

text \<open>
  An \<^verbatim>\<open>UPDATE\<close> of the row with the given primary key. Column \<^verbatim>\<open>updated_at\<close> is
  declared with \<^verbatim>\<open>onupdate=func.now()\<close>, so every update statement also sets it to the
  database server's time \<open>db_now\<close>.
\<close>

definition sql_update :: "int \<Rightarrow> string \<Rightarrow> (user \<Rightarrow> user) \<Rightarrow> user list \<Rightarrow> user list" where
  "sql_update db_now uid f db =
     map (\<lambda>r. if user_id r = uid then (f r)\<lparr>updated_at := Some db_now\<rparr> else r) db"

section \<open>GoogleAuthProvider\<close>

text \<open>
  The verified content of a Google ID token as the code reads it. \<^verbatim>\<open>sub\<close> and
  \<^verbatim>\<open>email\<close> are strings in every ID token issued with the e-mail scope; the other
  claims are read with \<^verbatim>\<open>.get\<close> and may be missing.
\<close>

record idinfo =
  iss :: "string option"
  sub :: string
  id_email :: string
  name :: "string option"
  picture :: "string option"
  email_verified :: "bool option"

text \<open>The dictionary returned by \<open>verify_google_token\<close>.\<close>

record google_data =
  g_google_id :: string
  g_email :: string
  g_full_name :: "string option"
  g_avatar_url :: "string option"
  g_email_verified :: bool

text \<open>
  \<open>verify_oauth2_token\<close> is Google's verification (\<^verbatim>\<open>id_token.verify_oauth2_token\<close>,
  a network call): for a token string and the expected audience it either raises, with
  a message, or returns the token's claims. It is a parameter of the model. The
  source raises \<^verbatim>\<open>AuthenticationError("Invalid token issuer")\<close> inside its own
  \<^verbatim>\<open>try\<close>, so that error is wrapped like any other.
\<close>

definition verify_google_token ::
  "(string \<Rightarrow> string option \<Rightarrow> string + idinfo) \<Rightarrow> settings \<Rightarrow> string \<Rightarrow> error + google_data" where
  "verify_google_token verify_oauth2_token cfg tok =
     (case verify_oauth2_token tok (GOOGLE_CLIENT_ID cfg) of
        Inl msg \<Rightarrow> Inl (AuthenticationError (''Google token verification failed: '' @ msg))
      | Inr info \<Rightarrow>
          if iss info \<notin> {Some ''accounts.google.com'', Some ''https://accounts.google.com''}
          then Inl (AuthenticationError
                     (''Google token verification failed: '' @ ''Invalid token issuer''))
          else Inr \<lparr>g_google_id = sub info,
                    g_email = id_email info,
                    g_full_name = name info,
                    g_avatar_url = picture info,
                    g_email_verified = (case email_verified info of None \<Rightarrow> False | Some b \<Rightarrow> b)\<rparr>)"

section \<open>UserService\<close>

text \<open>
  \<open>now\<close> is the reading of \<^verbatim>\<open>datetime.utcnow()\<close>, \<open>db_now\<close> the server time of the
  statement, \<open>new_id\<close> the value drawn by the column default \<^verbatim>\<open>uuid.uuid4\<close>. The
  commit fails when the new row collides with a unique column of an existing row.
\<close>

definition create_user_from_google ::
  "int \<Rightarrow> int \<Rightarrow> string \<Rightarrow> user list \<Rightarrow> google_data \<Rightarrow> error + user \<times> user list" where
  "create_user_from_google now db_now new_id db gd =
     (let u = \<lparr>user_id = new_id,
               email = g_email gd,
               full_name = g_full_name gd,
               avatar_url = g_avatar_url gd,
               google_id = Some (g_google_id gd),
               telegram_id = None,
               github_id = None,
               preferred_language = Some ''en'',
               timezone = Some ''UTC'',
               country = None,
               is_active = True,
               is_verified = g_email_verified gd,
               is_premium = False,
               created_at = Some db_now,
               updated_at = None,
               last_login = Some now\<rparr>
      in if user_id u \<in> user_id ` set db \<or> email u \<in> email ` set db
            \<or> google_id u \<in> google_id ` set db
         then Inl IntegrityError
         else Inr (u, db @ [u]))"

definition update_user_login :: "int \<Rightarrow> int \<Rightarrow> user list \<Rightarrow> user \<Rightarrow> user \<times> user list" where
  "update_user_login now db_now db u =
     (let f = (\<lambda>r. r\<lparr>last_login := Some now\<rparr>)
      in ((f u)\<lparr>updated_at := Some db_now\<rparr>, sql_update db_now (user_id u) f db))"

section \<open>AuthService\<close>

text \<open>Values of the response dictionaries.\<close>

datatype pyval = VNone | VBool bool | VStr string | VTime int | VToken token
  | VDict "(string \<times> pyval) list"

definition opt_str :: "string option \<Rightarrow> pyval" where
  "opt_str v = (case v of None \<Rightarrow> VNone | Some s \<Rightarrow> VStr s)"

definition opt_time :: "int option \<Rightarrow> pyval" where
  "opt_time v = (case v of None \<Rightarrow> VNone | Some t \<Rightarrow> VTime t)"

text \<open>
  The clock readings taken while one Google sign-in is served: the calls of
  \<^verbatim>\<open>datetime.utcnow()\<close> (user creation, login update, the two tokens) and the
  database server's \<^verbatim>\<open>now()\<close> for the insert and the two updates.
\<close>

record clock =
  utc_create :: int
  utc_login :: int
  utc_access :: int
  utc_refresh :: int
  db_insert :: int
  db_link :: int
  db_login :: int

text \<open>
  Lines 175 to 193 of \<^verbatim>\<open>authenticate_with_google\<close>: the user for the verified
  identity and the table after the statements committed so far. Linking writes the
  unique column \<^verbatim>\<open>google_id\<close>, so its commit fails on a collision.
\<close>

definition resolve_user ::
  "clock \<Rightarrow> string \<Rightarrow> user list \<Rightarrow> google_data \<Rightarrow> error + user \<times> user list" where
  "resolve_user clk new_id db gd =
     (case get_user_by_google_id db (g_google_id gd) of
        Inl e \<Rightarrow> Inl e
      | Inr (Some u) \<Rightarrow> Inr (u, db)
      | Inr None \<Rightarrow>
          (case get_user_by_email db (g_email gd) of
             Inl e \<Rightarrow> Inl e
           | Inr (Some u) \<Rightarrow>
               if Some (g_google_id gd) \<in> google_id ` set db then Inl IntegrityError
               else (let f = (\<lambda>r. r\<lparr>google_id := Some (g_google_id gd)\<rparr>)
                     in Inr ((f u)\<lparr>updated_at := Some (db_link clk)\<rparr>,
                             sql_update (db_link clk) (user_id u) f db))
           | Inr None \<Rightarrow>
               create_user_from_google (utc_create clk) (db_insert clk) new_id db gd))"

definition authenticate_with_google ::
  "(string \<Rightarrow> string option \<Rightarrow> string + idinfo) \<Rightarrow> settings \<Rightarrow> clock \<Rightarrow> string \<Rightarrow> user list
     \<Rightarrow> string \<Rightarrow> error + (string \<times> pyval) list \<times> user list" where
  "authenticate_with_google verify_oauth2_token cfg clk new_id db google_token =
     (case verify_google_token verify_oauth2_token cfg google_token of
        Inl e \<Rightarrow> Inl e
      | Inr gd \<Rightarrow>
          (case resolve_user clk new_id db gd of
             Inl e \<Rightarrow> Inl e
           | Inr (u0, db1) \<Rightarrow>
               (let (u, db2) = update_user_login (utc_login clk) (db_login clk) db1 u0;
                    access_token = create_access_token cfg (utc_access clk)
                      [(''sub'', JStr (user_id u)), (''email'', JStr (email u))] None;
                    refresh_token = create_refresh_token cfg (utc_refresh clk)
                      [(''sub'', JStr (user_id u))]
                in Inr ([(''access_token'', VToken access_token),
                         (''refresh_token'', VToken refresh_token),
                         (''token_type'', VStr ''bearer''),
                         (''user'', VDict
                            [(''id'', VStr (user_id u)),
                             (''email'', VStr (email u)),
                             (''full_name'', opt_str (full_name u)),
                             (''avatar_url'', opt_str (avatar_url u)),
                             (''is_verified'', VBool (is_verified u)),
                             (''is_premium'', VBool (is_premium u))])],
                        db2))))"

text \<open>
  \<open>now\<close> is the clock reading of the verification, \<open>issued\<close> the later reading
  taken when the new access token is made.
\<close>

definition refresh_access_token ::
  "settings \<Rightarrow> int \<Rightarrow> int \<Rightarrow> user list \<Rightarrow> token \<Rightarrow> error + (string \<times> pyval) list" where
  "refresh_access_token cfg now issued db refresh_token =
     (case verify_token cfg now refresh_token of
        Inl e \<Rightarrow> Inl e
      | Inr None \<Rightarrow> Inl (AuthenticationError ''Invalid refresh token'')
      | Inr (Some payload) \<Rightarrow>
          if payload = [] \<or> py_get payload ''type'' \<noteq> JStr ''refresh''
          then Inl (AuthenticationError ''Invalid refresh token'')
          else (case get_user_by_id db (py_get payload ''sub'') of
                  Inl e \<Rightarrow> Inl e
                | Inr None \<Rightarrow> Inl (AuthenticationError ''User not found or inactive'')
                | Inr (Some u) \<Rightarrow>
                    if \<not> is_active u
                    then Inl (AuthenticationError ''User not found or inactive'')
                    else Inr [(''access_token'', VToken (create_access_token cfg issued
                                 [(''sub'', JStr (user_id u)), (''email'', JStr (email u))] None)),
                              (''token_type'', VStr ''bearer'')]))"

definition get_current_user ::
  "settings \<Rightarrow> int \<Rightarrow> user list \<Rightarrow> token \<Rightarrow> error + user option" where
  "get_current_user cfg now db tok =
     (case verify_token cfg now tok of
        Inl e \<Rightarrow> Inl e
      | Inr None \<Rightarrow> Inr None
      | Inr (Some payload) \<Rightarrow>
          if payload = [] \<or> py_get payload ''type'' \<noteq> JStr ''access'' then Inr None
          else if \<not> truthy (py_get payload ''sub'') then Inr None
          else (case get_user_by_id db (py_get payload ''sub'') of
                  Inl e \<Rightarrow> Inl e
                | Inr None \<Rightarrow> Inr None
                | Inr (Some u) \<Rightarrow> if is_active u then Inr (Some u) else Inr None))"

section \<open>The endpoint GET /auth/me\<close>

datatype http_error = HTTPException nat string

definition get_current_user_info :: "user option \<Rightarrow> http_error + (string \<times> pyval) list" where
  "get_current_user_info current_user =
     (case current_user of
        None \<Rightarrow> Inl (HTTPException 401 ''Not authenticated'')
      | Some u \<Rightarrow>
          Inr [(''id'', VStr (user_id u)),
               (''email'', VStr (email u)),
               (''full_name'', opt_str (full_name u)),
               (''avatar_url'', opt_str (avatar_url u)),
               (''is_verified'', VBool (is_verified u)),
               (''is_premium'', VBool (is_premium u)),
               (''preferred_language'', opt_str (preferred_language u)),
               (''created_at'', opt_time (created_at u)),
               (''last_login'', opt_time (last_login u))])"

section \<open>Configuration\<close>

text \<open>A raw value handed to a field validator before any type coercion.\<close>

datatype raw = RNone | RBool bool | RInt int | RStr string | RList "raw list"
  | RDict "(string \<times> raw) list"

text \<open>
  \<open>ValueError\<close> is what a validator raises; \<open>SettingsError\<close> is what the settings
  class raises when it cannot decode the value of an environment variable.
\<close>

datatype config_error = ValueError raw | SettingsError

text \<open>\<^verbatim>\<open>s.split(c)\<close> for a one-character separator; the last case cannot arise.\<close>

fun split :: "char \<Rightarrow> string \<Rightarrow> string list" where
  "split c [] = [[]]"
| "split c (x # xs) =
     (if x = c then [] # split c xs
      else (case split c xs of
              w # ws \<Rightarrow> (x # w) # ws
            | [] \<Rightarrow> [[x]]))"

definition startswith :: "string \<Rightarrow> string \<Rightarrow> bool" where
  "startswith s p = (take (length p) s = p)"

definition assemble_cors_origins :: "raw \<Rightarrow> config_error + raw" where
  "assemble_cors_origins v =
     (case v of
        RStr s \<Rightarrow>
          if \<not> startswith s ''[''
          then Inr (RList (map (\<lambda>i. RStr (strip i)) (split CHR '','' s)))
          else Inr v
      | RList l \<Rightarrow> Inr v
      | _ \<Rightarrow> Inl (ValueError v))"

text \<open>
  Loading the field \<^verbatim>\<open>BACKEND_CORS_ORIGINS\<close>. \<^verbatim>\<open>Settings()\<close> is built without
  arguments, so a value comes from the environment (or the \<^verbatim>\<open>.env\<close> file) as a
  string. The field is declared as a list, a complex type, and for a complex field the
  settings class first decodes the string with \<^verbatim>\<open>json.loads\<close>; when that fails the
  load fails with \<open>SettingsError\<close>, before any validator runs. An unset variable
  leaves the declared default \<^verbatim>\<open>[]\<close>, which is validated like a supplied value. The
  later check of each item as a URL is not modelled.

  A JSON text begins, after blanks, with a quote, a brace, a bracket, a minus sign, a
  digit or the first letter of \<^verbatim>\<open>true\<close>, \<^verbatim>\<open>false\<close>, \<^verbatim>\<open>null\<close>, \<^verbatim>\<open>NaN\<close> or
  \<^verbatim>\<open>Infinity\<close>; any other text makes \<^verbatim>\<open>json.loads\<close> raise. \<open>decoder\<close> stands for
  \<^verbatim>\<open>json.loads\<close> on the texts that begin in such a way (\<open>None\<close>: it raises).
\<close>

definition json_whitespace :: "char \<Rightarrow> bool" where
  "json_whitespace c = (let n = (of_char c :: nat) in n = 32 \<or> n = 9 \<or> n = 10 \<or> n = 13)"

definition json_loads :: "(string \<Rightarrow> raw option) \<Rightarrow> string \<Rightarrow> raw option" where
  "json_loads decoder s =
     (case dropWhile json_whitespace s of
        [] \<Rightarrow> None
      | c # cs \<Rightarrow> if c \<in> set (CHR 0x22 # ''{[-0123456789tfnNI'') then decoder s else None)"

definition load_BACKEND_CORS_ORIGINS ::
  "(string \<Rightarrow> raw option) \<Rightarrow> string option \<Rightarrow> config_error + raw" where
  "load_BACKEND_CORS_ORIGINS decoder env =
     (case env of
        None \<Rightarrow> assemble_cors_origins (RList [])
      | Some s \<Rightarrow>
          (case json_loads decoder s of
             None \<Rightarrow> Inl SettingsError
           | Some v \<Rightarrow> assemble_cors_origins v))"

text \<open>
  The e-mail block of \<^verbatim>\<open>Settings\<close>. \<open>field_values\<close> is the dictionary \<^verbatim>\<open>values\<close> a
  validator receives: the fields declared, and so validated, before its own.
\<close>

record field_values =
  PROJECT_NAME :: string
  SMTP_PORT :: "int option"
  SMTP_HOST :: "string option"
  EMAILS_FROM_EMAIL :: "string option"

record mail_settings = field_values +
  EMAILS_FROM_NAME :: "string option"
  EMAILS_ENABLED :: bool

definition get_project_name :: "string option \<Rightarrow> field_values \<Rightarrow> string" where
  "get_project_name v vals =
     (case v of
        None \<Rightarrow> PROJECT_NAME vals
      | Some s \<Rightarrow> if s = [] then PROJECT_NAME vals else s)"

text \<open>\<^verbatim>\<open>bool(a and b and c)\<close>: each operand by its truthiness.\<close>

definition get_emails_enabled :: "raw \<Rightarrow> field_values \<Rightarrow> bool" where
  "get_emails_enabled v vals =
     ((case SMTP_HOST vals of None \<Rightarrow> False | Some h \<Rightarrow> h \<noteq> [])
      \<and> (case SMTP_PORT vals of None \<Rightarrow> False | Some p \<Rightarrow> p \<noteq> 0)
      \<and> (case EMAILS_FROM_EMAIL vals of None \<Rightarrow> False | Some e \<Rightarrow> e \<noteq> []))"

text \<open>
  What the environment supplies for these fields (\<open>None\<close>: the variable is unset),
  each value already of the field's type.
\<close>

record environment =
  env_PROJECT_NAME :: "string option"
  env_SMTP_PORT :: "int option"
  env_SMTP_HOST :: "string option"
  env_EMAILS_FROM_EMAIL :: "string option"
  env_EMAILS_FROM_NAME :: "string option"
  env_EMAILS_ENABLED :: "raw option"

text \<open>
  Loading \<^verbatim>\<open>Settings()\<close>. Fields are processed in declaration order. The settings
  base class validates every field, supplied or not (\<^verbatim>\<open>BaseSettings\<close> sets
  \<^verbatim>\<open>validate_all\<close>), so both validators also run on the declared defaults
  \<^verbatim>\<open>None\<close> and \<^verbatim>\<open>False\<close>.
\<close>

definition load_settings :: "environment \<Rightarrow> mail_settings" where
  "load_settings env =
     (let vals = \<lparr>PROJECT_NAME = (case env_PROJECT_NAME env of
                                    None \<Rightarrow> ''MicroCode API'' | Some s \<Rightarrow> s),
                  SMTP_PORT = env_SMTP_PORT env,
                  SMTP_HOST = env_SMTP_HOST env,
                  EMAILS_FROM_EMAIL = env_EMAILS_FROM_EMAIL env\<rparr>
      in field_values.extend vals
           \<lparr>EMAILS_FROM_NAME = Some (get_project_name (env_EMAILS_FROM_NAME env) vals),
            EMAILS_ENABLED = get_emails_enabled
                               (case env_EMAILS_ENABLED env of
                                  None \<Rightarrow> RBool False | Some v \<Rightarrow> v) vals\<rparr>)"

section \<open>Example data\<close>

definition example_settings :: settings where
  "example_settings = \<lparr>SECRET_KEY = ''s3cret'', ALGORITHM = ''HS256'',
     ACCESS_TOKEN_EXPIRE_MINUTES = 30, REFRESH_TOKEN_EXPIRE_DAYS = 7,
     GOOGLE_CLIENT_ID = Some ''client-1''\<rparr>"

definition alice :: user where
  "alice = \<lparr>user_id = ''11111111-1111-4111-8111-111111111111'',
      email = ''alice@a.example'', full_name = Some ''Alice'',
     avatar_url = None, google_id = None, telegram_id = None, github_id = None,
     preferred_language = Some ''en'', timezone = Some ''UTC'', country = None,
     is_active = True, is_verified = False, is_premium = True,
     created_at = Some 10, updated_at = None, last_login = None\<rparr>"

definition bob :: user where
  "bob = \<lparr>user_id = ''22222222-2222-4222-8222-222222222222'',
      email = ''bob@b.example'', full_name = Some ''Bob'',
     avatar_url = None, google_id = Some ''g-bob'', telegram_id = None, github_id = None,
     preferred_language = Some ''en'', timezone = Some ''UTC'', country = None,
     is_active = False, is_verified = True, is_premium = False,
     created_at = Some 20, updated_at = None, last_login = Some 30\<rparr>"

definition example_clock :: clock where
  "example_clock = \<lparr>utc_create = 1000, utc_login = 1001, utc_access = 1002,
     utc_refresh = 1003, db_insert = 1000, db_link = 1000, db_login = 1001\<rparr>"

text \<open>An identity provider that accepts the token strings of Bob, Alice and a newcomer.\<close>

definition example_google :: "string \<Rightarrow> string option \<Rightarrow> string + idinfo" where
  "example_google tok aud =
     (if tok = ''tok-bob'' then
        Inr \<lparr>iss = Some ''accounts.google.com'', sub = ''g-bob'', id_email = ''bob@b.example'',
             name = Some ''Robert'', picture = None, email_verified = Some True\<rparr>
      else if tok = ''tok-alice'' then
        Inr \<lparr>iss = Some ''https://accounts.google.com'', sub = ''g-alice'',
             id_email = ''alice@a.example'', name = Some ''Alice G'',
             picture = Some ''https://p.example/a.png'', email_verified = Some True\<rparr>
      else if tok = ''tok-carol'' then
        Inr \<lparr>iss = Some ''accounts.google.com'', sub = ''g-carol'',
             id_email = ''carol@c.example'', name = None, picture = None,
             email_verified = Some True\<rparr>
      else Inl ''Wrong number of segments in token'')"

text \<open>Two environments: a complete mail configuration, and one whose port is 0.\<close>

definition mail_environment :: environment where
  "mail_environment = \<lparr>env_PROJECT_NAME = None, env_SMTP_PORT = Some 587,
     env_SMTP_HOST = Some ''smtp.a.example'', env_EMAILS_FROM_EMAIL = Some ''noreply@a.example'',
     env_EMAILS_FROM_NAME = None, env_EMAILS_ENABLED = None\<rparr>"

definition port_zero_environment :: environment where
  "port_zero_environment = \<lparr>env_PROJECT_NAME = None, env_SMTP_PORT = Some 0,
     env_SMTP_HOST = Some ''smtp.a.example'', env_EMAILS_FROM_EMAIL = Some ''noreply@a.example'',
     env_EMAILS_FROM_NAME = None, env_EMAILS_ENABLED = None\<rparr>"

section \<open>Properties of the token manager\<close>




lemma verify_token_Malformed: "verify_token cfg now (Malformed s) = Inr None"
  by (simp add: verify_token_def jwt_decode_def is_JWTError_def)


text \<open>
  C6 on the code. A token signed with the configured key and algorithm whose \<^verbatim>\<open>exp\<close>
  claim is \<^verbatim>\<open>null\<close> makes \<open>verify_token\<close> raise: the decoder's \<^verbatim>\<open>int(None)\<close> is a
  \<^verbatim>\<open>TypeError\<close>, which \<^verbatim>\<open>except JWTError\<close> does not catch. An \<^verbatim>\<open>exp\<close> that is a string of
  letters, a malformed string and a wrong key give the absent result, as intended.
\<close>

theorem verify_token_raises_on_null_exp:
  "verify_token example_settings 1000
     (JWS ''HS256'' ''s3cret'' [(''sub'', JStr ''11111111-1111-4111-8111-111111111111''), (''exp'', JNull),
        (''type'', JStr ''access'')]) = Inl TypeError
   \<and> verify_token example_settings 1000
     (JWS ''HS256'' ''s3cret'' [(''sub'', JStr ''11111111-1111-4111-8111-111111111111''), (''exp'', JStr ''soon''),
        (''type'', JStr ''access'')]) = Inr None
   \<and> verify_token example_settings 1000 (Malformed ''abc'') = Inr None
   \<and> verify_token example_settings 1000
     (JWS ''HS256'' ''forged'' [(''sub'', JStr ''11111111-1111-4111-8111-111111111111''), (''exp'', JNull),
        (''type'', JStr ''access'')]) = Inr None"
  by (simp add: verify_token_def jwt_decode_def validate_claims_def validate_iat_def
      validate_nbf_def validate_exp_def validate_aud_def validate_sub_def validate_jti_def
      validate_at_hash_def is_JWTError_def example_settings_def int_of_str_def strip_def
      isspace_def is_digit_def)




section \<open>Lookups in the user table\<close>

lemma filter_key_distinct:
  "distinct (map f xs) \<Longrightarrow>
     filter (\<lambda>x. f x = k) xs = (case find (\<lambda>x. f x = k) xs of None \<Rightarrow> [] | Some x \<Rightarrow> [x])"
proof (induction xs)
  case Nil
  then show ?case by simp
next
  case (Cons x xs)
  show ?case
  proof (cases "f x = k")
    case True
    with Cons.prems have "k \<notin> f ` set xs" by auto
    then have "filter (\<lambda>x. f x = k) xs = []"
      by (auto simp: filter_empty_conv)
    with True show ?thesis by simp
  next
    case False
    with Cons show ?thesis by simp
  qed
qed

lemma scalar_one_or_none_find:
  "scalar_one_or_none (case r of None \<Rightarrow> [] | Some x \<Rightarrow> [x]) = Inr r"
  by (cases r) (simp_all add: scalar_one_or_none_def)

lemma find_key_Some:
  "distinct (map f xs) \<Longrightarrow> (find (\<lambda>x. f x = k) xs = Some u) = (u \<in> set xs \<and> f u = k)"
proof (induction xs)
  case Nil
  then show ?case by simp
next
  case (Cons x xs)
  then show ?case by (auto simp: image_iff)
qed

lemma find_key_None: "(find (\<lambda>x. f x = k) xs = None) = (k \<notin> f ` set xs)"
  by (auto simp: find_None_iff)

section \<open>Refreshing and resolving\<close>

lemmas flow_defs = refresh_access_token_def get_current_user_def verify_token_def jwt_decode_def
  validate_claims_def validate_iat_def validate_nbf_def validate_exp_def validate_aud_def
  validate_sub_def validate_jti_def validate_at_hash_def is_JWTError_def
  create_access_token_def create_refresh_token_def jwt_encode_def dict_update_def py_get_def
  get_user_by_id_def uuid_of_str_def hex_digit_def scalar_one_or_none_def
  example_settings_def alice_def bob_def

text \<open>
  C3 on the code. A refresh token that verifies, with type \<^verbatim>\<open>refresh\<close>, whose subject is
  not the text of a UUID names no user; yet \<open>refresh_access_token\<close> does not fail with
  an authentication error: the subject goes unchecked into the query on the UUID
  column and the database layer raises \<open>DBAPIError\<close>. A subject that is the UUID of no
  user gives the authentication error, as intended. A signed token whose \<^verbatim>\<open>exp\<close> is
  \<^verbatim>\<open>null\<close> makes the verification raise \<open>TypeError\<close>, which is passed on.
\<close>

theorem refresh_access_token_raises_on_bad_subject:
  "refresh_access_token example_settings 1000 1001 [alice, bob]
     (create_refresh_token example_settings 900 [(''sub'', JStr ''no-such-user'')])
     = Inl DBAPIError
   \<and> refresh_access_token example_settings 1000 1001 [alice, bob]
     (create_refresh_token example_settings 900 [(''sub'', JStr ''44444444-4444-4444-8444-444444444444'')])
     = Inl (AuthenticationError ''User not found or inactive'')
   \<and> refresh_access_token example_settings 1000 1001 [alice, bob]
     (JWS ''HS256'' ''s3cret'' [(''sub'', JStr ''11111111-1111-4111-8111-111111111111''), (''exp'', JNull),
        (''type'', JStr ''refresh'')])
     = Inl TypeError"
  by (simp add: flow_defs)

text \<open>
  C4 on the code. An access token that verifies, whose subject is not the text of a
  UUID, refers to no user; yet \<open>get_current_user\<close> does not return the absent result:
  the database layer raises \<open>DBAPIError\<close>. A subject that is the UUID of no user
  gives the absent result, as intended. A signed token whose \<^verbatim>\<open>exp\<close> is \<^verbatim>\<open>null\<close>
  makes the verification raise \<open>TypeError\<close>, which is passed on.
\<close>

theorem get_current_user_raises_on_bad_subject:
  "get_current_user example_settings 1000 [alice, bob]
     (create_access_token example_settings 900
        [(''sub'', JStr ''no-such-user''), (''email'', JStr ''nobody@n.example'')] None)
     = Inl DBAPIError
   \<and> get_current_user example_settings 1000 [alice, bob]
     (create_access_token example_settings 900
        [(''sub'', JStr ''44444444-4444-4444-8444-444444444444''),
         (''email'', JStr ''nobody@n.example'')] None)
     = Inr None
   \<and> get_current_user example_settings 1000 [alice, bob]
     (JWS ''HS256'' ''s3cret'' [(''sub'', JStr ''11111111-1111-4111-8111-111111111111''), (''exp'', JNull),
        (''type'', JStr ''access'')])
     = Inl TypeError"
  by (simp add: flow_defs)

section \<open>The profile endpoint\<close>

text \<open>
  C7. For every resolved user the response of \<^verbatim>\<open>GET /auth/me\<close> has exactly the
  nine documented keys, none of them \<^verbatim>\<open>google_id\<close>, \<^verbatim>\<open>telegram_id\<close>, \<^verbatim>\<open>github_id\<close>
  or another internal attribute, and the response does not depend on the internal
  attributes: changing them on the user record leaves it unchanged. Without a
  resolved user the endpoint answers 401.
\<close>

theorem get_current_user_info_public_fields:
  "(\<exists>d. get_current_user_info (Some u) = Inr d
        \<and> map fst d = [''id'', ''email'', ''full_name'', ''avatar_url'', ''is_verified'',
                        ''is_premium'', ''preferred_language'', ''created_at'', ''last_login'']
        \<and> map_of d ''google_id'' = None \<and> map_of d ''telegram_id'' = None
        \<and> map_of d ''github_id'' = None \<and> map_of d ''timezone'' = None
        \<and> map_of d ''country'' = None \<and> map_of d ''is_active'' = None
        \<and> map_of d ''updated_at'' = None)
   \<and> get_current_user_info
         (Some (u\<lparr>google_id := g, telegram_id := t, github_id := h, timezone := z,
                   country := c, is_active := a, updated_at := x\<rparr>))
       = get_current_user_info (Some u)
   \<and> get_current_user_info None = Inl (HTTPException 401 ''Not authenticated'')"
  by (simp add: get_current_user_info_def)

section \<open>Configuration validators\<close>

lemma split_not_Nil: "split c s \<noteq> []"
  by (induction s) (auto split: list.splits)

lemma split_no_sep: "w \<in> set (split c s) \<Longrightarrow> c \<notin> set w"
proof (induction s arbitrary: w)
  case Nil
  then show ?case by simp
next
  case (Cons x xs)
  then show ?case
    by (cases "split c xs") (auto simp: split_not_Nil split: if_splits)
qed

lemma split_join: "concat (map (\<lambda>w. w @ [c]) (split c s)) = s @ [c]"
proof (induction s)
  case Nil
  then show ?case by simp
next
  case (Cons x xs)
  then show ?case
    by (cases "split c xs") (auto simp: split_not_Nil)
qed

lemma dropWhile_hd: "dropWhile P xs \<noteq> [] \<Longrightarrow> \<not> P (hd (dropWhile P xs))"
  by (metis hd_dropWhile)

lemma strip_trimmed:
  "strip s = [] \<or> (\<not> isspace (hd (strip s)) \<and> \<not> isspace (last (strip s)))"
proof (cases "strip s = []")
  case True
  then show ?thesis by simp
next
  case False
  let ?a = "dropWhile isspace s"
  let ?b = "dropWhile isspace (rev ?a)"
  from False have b: "?b \<noteq> []" by (simp add: strip_def)
  then have lastok: "\<not> isspace (hd ?b)" by (rule dropWhile_hd)
  have l: "last (strip s) = hd ?b" using b by (simp add: strip_def last_rev)
  have a: "?a \<noteq> []"
  proof
    assume e: "?a = []"
    have "?b = []" by (simp only: e rev.simps dropWhile.simps)
    with b show False by simp
  qed
  then have ha: "\<not> isspace (hd ?a)" by (rule dropWhile_hd)
  obtain ys where ys: "rev ?a = ys @ ?b"
    by (metis takeWhile_dropWhile_id)
  then have "?a = rev ?b @ rev ys" by (metis rev_append rev_rev_ident)
  with b have "hd ?a = hd (rev ?b)" by (metis hd_append2 rev_is_Nil_conv)
  with ha have "\<not> isspace (hd (strip s))" by (simp add: strip_def)
  with lastok l show ?thesis by simp
qed

text \<open>
  What the validator does with a value that reaches it: the stripped pieces of a string
  that does not start with a bracket, a list as it is, \<open>ValueError\<close> for anything else.
\<close>

lemma assemble_cors_origins_validator:
  "assemble_cors_origins (RStr ''https://a.example,https://b.example'')
     = Inr (RList [RStr ''https://a.example'', RStr ''https://b.example''])
   \<and> (\<not> startswith s ''['' \<longrightarrow>
        assemble_cors_origins (RStr s) = Inr (RList (map (\<lambda>i. RStr (strip i)) (split CHR '','' s)))
        \<and> concat (map (\<lambda>w. w @ '','') (split CHR '','' s)) = s @ '',''
        \<and> (\<forall>w\<in>set (split CHR '','' s). CHR '','' \<notin> set w
              \<and> (strip w = [] \<or> \<not> isspace (hd (strip w)) \<and> \<not> isspace (last (strip w)))))
   \<and> assemble_cors_origins (RList l) = Inr (RList l)
   \<and> ((\<forall>s. v \<noteq> RStr s) \<and> (\<forall>l. v \<noteq> RList l) \<longrightarrow> assemble_cors_origins v = Inl (ValueError v))"
proof -
  have ex: "assemble_cors_origins (RStr ''https://a.example,https://b.example'')
     = Inr (RList [RStr ''https://a.example'', RStr ''https://b.example''])"
    by (simp add: assemble_cors_origins_def startswith_def strip_def isspace_def)
  have str: "\<not> startswith s ''['' \<longrightarrow>
        assemble_cors_origins (RStr s) = Inr (RList (map (\<lambda>i. RStr (strip i)) (split CHR '','' s)))"
    by (simp add: assemble_cors_origins_def)
  have pieces: "\<forall>w\<in>set (split CHR '','' s). CHR '','' \<notin> set w
              \<and> (strip w = [] \<or> \<not> isspace (hd (strip w)) \<and> \<not> isspace (last (strip w)))"
    using split_no_sep strip_trimmed by blast
  have lst: "assemble_cors_origins (RList l) = Inr (RList l)"
    by (simp add: assemble_cors_origins_def)
  have other: "(\<forall>s. v \<noteq> RStr s) \<and> (\<forall>l. v \<noteq> RList l) \<longrightarrow> assemble_cors_origins v = Inl (ValueError v)"
    by (cases v) (simp_all add: assemble_cors_origins_def)
  from ex str pieces lst other split_join [of "CHR '',''" s] show ?thesis by simp
qed

text \<open>
  C8 on the code. The loader, given \<^verbatim>\<open>BACKEND_CORS_ORIGINS\<close> as the string
  \<^verbatim>\<open>"https://a.example,https://b.example"\<close>, does not produce the list of the two
  origins: the string is no JSON text, so the load fails with \<open>SettingsError\<close> before
  the validator runs. The validator itself would split the string, which is what it
  was written for.
\<close>

theorem cors_origins_string_fails_to_load:
  "load_BACKEND_CORS_ORIGINS decoder (Some ''https://a.example,https://b.example'')
     = Inl SettingsError
   \<and> assemble_cors_origins (RStr ''https://a.example,https://b.example'')
     = Inr (RList [RStr ''https://a.example'', RStr ''https://b.example''])"
  by (simp add: load_BACKEND_CORS_ORIGINS_def json_loads_def json_whitespace_def
      assemble_cors_origins_def startswith_def strip_def isspace_def)

text \<open>
  C9 as stated fails: with \<^verbatim>\<open>SMTP_PORT=0\<close> all three values are present, yet
  \<^verbatim>\<open>EMAILS_ENABLED\<close> is false, because the validator tests truthiness.
\<close>

theorem emails_enabled_all_present_counterexample:
  "\<not> (EMAILS_ENABLED (load_settings port_zero_environment) \<longleftrightarrow>
        SMTP_HOST (load_settings port_zero_environment) \<noteq> None
      \<and> SMTP_PORT (load_settings port_zero_environment) \<noteq> None
      \<and> EMAILS_FROM_EMAIL (load_settings port_zero_environment) \<noteq> None)"
  by (simp add: load_settings_def port_zero_environment_def get_emails_enabled_def
      field_values.extend_def Let_def)

text \<open>
  C9, amended. When \<^verbatim>\<open>EMAILS_FROM_NAME\<close> is unset, the loaded value equals
  \<^verbatim>\<open>PROJECT_NAME\<close>; and \<^verbatim>\<open>EMAILS_ENABLED\<close> is true if and only if \<^verbatim>\<open>SMTP_HOST\<close>,
  \<^verbatim>\<open>SMTP_PORT\<close> and \<^verbatim>\<open>EMAILS_FROM_EMAIL\<close> are all present and truthy: a non-empty
  host, a non-zero port, a non-empty address.
\<close>

theorem load_settings_mail_fields:
  "(env_EMAILS_FROM_NAME env = None \<longrightarrow>
      EMAILS_FROM_NAME (load_settings env) = Some (PROJECT_NAME (load_settings env)))
   \<and> (EMAILS_ENABLED (load_settings env) \<longleftrightarrow>
        (\<exists>h p e. SMTP_HOST (load_settings env) = Some h \<and> h \<noteq> []
           \<and> SMTP_PORT (load_settings env) = Some p \<and> p \<noteq> 0
           \<and> EMAILS_FROM_EMAIL (load_settings env) = Some e \<and> e \<noteq> []))"
  by (auto simp: load_settings_def get_emails_enabled_def get_project_name_def
      field_values.extend_def Let_def split: option.splits)

theorem load_settings_mail_fields_witness:
  "env_EMAILS_FROM_NAME mail_environment = None
   \<and> EMAILS_FROM_NAME (load_settings mail_environment) = Some ''MicroCode API''
   \<and> PROJECT_NAME (load_settings mail_environment) = ''MicroCode API''
   \<and> EMAILS_ENABLED (load_settings mail_environment)"
proof -
  have a: "env_EMAILS_FROM_NAME mail_environment = None"
    by (simp add: mail_environment_def)
  have b: "PROJECT_NAME (load_settings mail_environment) = ''MicroCode API''"
    by (simp add: load_settings_def mail_environment_def field_values.extend_def Let_def)
  have c: "SMTP_HOST (load_settings mail_environment) = Some ''smtp.a.example''
      \<and> SMTP_PORT (load_settings mail_environment) = Some 587
      \<and> EMAILS_FROM_EMAIL (load_settings mail_environment) = Some ''noreply@a.example''"
    by (simp add: load_settings_def mail_environment_def field_values.extend_def Let_def)
  from load_settings_mail_fields [of mail_environment] a b c show ?thesis by auto
qed

section \<open>Signing in with Google\<close>

lemma set_map_filter_iff: "y \<in> set (List.map_filter g xs) \<longleftrightarrow> (\<exists>x\<in>set xs. g x = Some y)"
  by (induction xs) (auto split: option.splits)

lemma filter_opt_key_distinct:
  "distinct (List.map_filter g xs) \<Longrightarrow>
     filter (\<lambda>x. g x = Some k) xs = (case find (\<lambda>x. g x = Some k) xs of None \<Rightarrow> [] | Some x \<Rightarrow> [x])"
proof (induction xs)
  case Nil
  then show ?case by simp
next
  case (Cons x xs)
  show ?case
  proof (cases "g x = Some k")
    case True
    with Cons.prems have "k \<notin> set (List.map_filter g xs)"
      by simp
    then have "filter (\<lambda>x. g x = Some k) xs = []"
      by (auto simp: filter_empty_conv set_map_filter_iff)
    with True show ?thesis by simp
  next
    case False
    from Cons.prems have "distinct (List.map_filter g xs)"
      by (cases "g x") simp_all
    with Cons.IH False show ?thesis by simp
  qed
qed

lemma get_user_by_google_id_find:
  "db_ok db \<Longrightarrow> get_user_by_google_id db g = Inr (find (\<lambda>u. google_id u = Some g) db)"
  by (simp add: db_ok_def get_user_by_google_id_def filter_opt_key_distinct scalar_one_or_none_find)

lemma get_user_by_email_find:
  "db_ok db \<Longrightarrow> get_user_by_email db e = Inr (find (\<lambda>u. email u = e) db)"
  by (simp add: db_ok_def get_user_by_email_def filter_key_distinct scalar_one_or_none_find)

lemma find_opt_key_nth:
  "distinct (List.map_filter g xs) \<Longrightarrow> i < length xs \<Longrightarrow> g (xs ! i) = Some k
     \<Longrightarrow> find (\<lambda>x. g x = Some k) xs = Some (xs ! i)"
proof (induction xs arbitrary: i)
  case Nil
  then show ?case by simp
next
  case (Cons x xs)
  show ?case
  proof (cases i)
    case 0
    with Cons.prems show ?thesis by simp
  next
    case (Suc j)
    with Cons.prems have j: "j < length xs" "g (xs ! j) = Some k" by simp_all
    then have "k \<in> set (List.map_filter g xs)"
      by (auto simp: set_map_filter_iff)
    with Cons.prems(1) have "g x \<noteq> Some k"
      by auto
    moreover from Cons.prems(1) have "distinct (List.map_filter g xs)"
      by (cases "g x") simp_all
    ultimately show ?thesis using Cons.IH [OF _ j] Suc by simp
  qed
qed

lemma find_key_nth:
  "distinct (map f xs) \<Longrightarrow> i < length xs \<Longrightarrow> f (xs ! i) = k
     \<Longrightarrow> find (\<lambda>x. f x = k) xs = Some (xs ! i)"
  by (simp add: find_key_Some)

lemma find_opt_key_None:
  "Some k \<notin> g ` set xs \<Longrightarrow> find (\<lambda>x. g x = Some k) xs = None"
  by (auto simp: find_None_iff) (metis imageI)

lemma sql_update_nth:
  "distinct (map user_id db) \<Longrightarrow> i < length db \<Longrightarrow>
     sql_update t (user_id (db ! i)) f db = db[i := (f (db ! i))\<lparr>updated_at := Some t\<rparr>]"
proof (induction db arbitrary: i)
  case Nil
  then show ?case by simp
next
  case (Cons x xs)
  show ?case
  proof (cases i)
    case 0
    from Cons.prems(1) have "\<forall>r\<in>set xs. user_id r \<noteq> user_id x"
      by auto (metis imageI)
    then have "map (\<lambda>r. if user_id r = user_id x then (f r)\<lparr>updated_at := Some t\<rparr> else r) xs = xs"
      by (simp add: map_idI)
    with 0 show ?thesis by (simp add: sql_update_def)
  next
    case (Suc j)
    with Cons.prems have j: "j < length xs" by simp
    then have "xs ! j \<in> set xs" by simp
    with Cons.prems(1) have "user_id x \<noteq> user_id (xs ! j)" by auto
    moreover from Cons.prems(1) have "distinct (map user_id xs)" by simp
    ultimately show ?thesis
      using Cons.IH [OF _ j] Suc by (simp add: sql_update_def)
  qed
qed

lemma update_user_login_nth:
  "distinct (map user_id db1) \<Longrightarrow> i < length db1 \<Longrightarrow> db1 ! i = u0 \<Longrightarrow>
     update_user_login t t' db1 u0 =
       (u0\<lparr>last_login := Some t, updated_at := Some t'\<rparr>,
        db1[i := u0\<lparr>last_login := Some t, updated_at := Some t'\<rparr>])"
  using sql_update_nth [of db1 i t' "\<lambda>r. r\<lparr>last_login := Some t\<rparr>"]
  by (simp add: update_user_login_def Let_def)

lemma resolve_user_by_google_id:
  "db_ok db \<Longrightarrow> i < length db \<Longrightarrow> google_id (db ! i) = Some (g_google_id gd) \<Longrightarrow>
     resolve_user clk new_id db gd = Inr (db ! i, db)"
  by (simp add: resolve_user_def get_user_by_google_id_find find_opt_key_nth db_ok_def)

lemma resolve_user_by_email:
  assumes "db_ok db" and "Some (g_google_id gd) \<notin> google_id ` set db"
    and "i < length db" and "email (db ! i) = g_email gd"
  shows "resolve_user clk new_id db gd =
     Inr ((db ! i)\<lparr>google_id := Some (g_google_id gd), updated_at := Some (db_link clk)\<rparr>,
          db[i := (db ! i)\<lparr>google_id := Some (g_google_id gd), updated_at := Some (db_link clk)\<rparr>])"
proof -
  have g: "get_user_by_google_id db (g_google_id gd) = Inr None"
    using assms(1,2) by (simp add: get_user_by_google_id_find find_opt_key_None)
  have e: "get_user_by_email db (g_email gd) = Inr (Some (db ! i))"
    using assms(1,3,4) by (simp add: get_user_by_email_find find_key_nth db_ok_def)
  have d: "distinct (map user_id db)" using assms(1) by (simp add: db_ok_def)
  show ?thesis
    using g e assms(2) sql_update_nth [OF d assms(3), of "db_link clk"
        "\<lambda>r. r\<lparr>google_id := Some (g_google_id gd)\<rparr>"]
    by (simp add: resolve_user_def Let_def)
qed

lemma resolve_user_new:
  assumes "db_ok db" and "Some (g_google_id gd) \<notin> google_id ` set db"
    and "g_email gd \<notin> email ` set db"
  shows "resolve_user clk new_id db gd =
           create_user_from_google (utc_create clk) (db_insert clk) new_id db gd"
proof -
  have g: "get_user_by_google_id db (g_google_id gd) = Inr None"
    using assms(1,2) by (simp add: get_user_by_google_id_find find_opt_key_None)
  have e: "get_user_by_email db (g_email gd) = Inr None"
    using assms(1,3) by (simp add: get_user_by_email_find find_key_None)
  show ?thesis using g e by (simp add: resolve_user_def)
qed

lemma create_user_from_google_fresh:
  assumes "Some (g_google_id gd) \<notin> google_id ` set db"
    and "g_email gd \<notin> email ` set db" and "new_id \<notin> user_id ` set db"
  shows "\<exists>u. create_user_from_google now dbn new_id db gd = Inr (u, db @ [u])
           \<and> user_id u = new_id \<and> email u = g_email gd
           \<and> full_name u = g_full_name gd \<and> avatar_url u = g_avatar_url gd
           \<and> google_id u = Some (g_google_id gd)
           \<and> is_verified u = g_email_verified gd \<and> is_active u \<and> \<not> is_premium u
           \<and> created_at u = Some dbn \<and> last_login u = Some now"
  using assms by (simp add: create_user_from_google_def Let_def)

lemma authenticate_via_resolve:
  assumes "verify_google_token google cfg tok = Inr gd"
    and "resolve_user clk new_id db gd = Inr (u0, db1)"
    and "update_user_login (utc_login clk) (db_login clk) db1 u0 = (u, db2)"
  shows "\<exists>resp. authenticate_with_google google cfg clk new_id db tok = Inr (resp, db2)
           \<and> map_of resp ''user'' = Some (VDict
                [(''id'', VStr (user_id u)), (''email'', VStr (email u)),
                 (''full_name'', opt_str (full_name u)),
                 (''avatar_url'', opt_str (avatar_url u)),
                 (''is_verified'', VBool (is_verified u)),
                 (''is_premium'', VBool (is_premium u))])"
  using assms by (simp add: authenticate_with_google_def Let_def)

lemma distinct_ids_list_update:
  "distinct (map user_id db) \<Longrightarrow> i < length db \<Longrightarrow> user_id u = user_id (db ! i)
     \<Longrightarrow> distinct (map user_id (db[i := u]))"
proof -
  assume d: "distinct (map user_id db)" and i: "i < length db"
    and u: "user_id u = user_id (db ! i)"
  from i u have "(map user_id db)[i := user_id u] = map user_id db"
    by (simp add: list_update_same_conv)
  with d show ?thesis by (simp add: map_update)
qed

text \<open>The three ways through the resolution, each with the table it leaves.\<close>

lemma sign_in_by_google_id:
  assumes v: "verify_google_token google cfg tok = Inr gd" and ok: "db_ok db"
    and i: "i < length db" "google_id (db ! i) = Some (g_google_id gd)"
  shows "\<exists>resp. authenticate_with_google google cfg clk new_id db tok =
           Inr (resp, db[i := (db ! i)\<lparr>last_login := Some (utc_login clk),
                                       updated_at := Some (db_login clk)\<rparr>])
         \<and> map_of resp ''user'' = Some (VDict
                [(''id'', VStr (user_id (db ! i))), (''email'', VStr (email (db ! i))),
                 (''full_name'', opt_str (full_name (db ! i))),
                 (''avatar_url'', opt_str (avatar_url (db ! i))),
                 (''is_verified'', VBool (is_verified (db ! i))),
                 (''is_premium'', VBool (is_premium (db ! i)))])"
proof -
  have d: "distinct (map user_id db)" using ok by (simp add: db_ok_def)
  from authenticate_via_resolve [OF v resolve_user_by_google_id [OF ok i]
      update_user_login_nth [OF d i(1) refl]]
  show ?thesis by simp
qed

lemma sign_in_by_email:
  assumes v: "verify_google_token google cfg tok = Inr gd" and ok: "db_ok db"
    and n: "Some (g_google_id gd) \<notin> google_id ` set db"
    and i: "i < length db" "email (db ! i) = g_email gd"
  shows "\<exists>resp. authenticate_with_google google cfg clk new_id db tok =
           Inr (resp, db[i := (db ! i)\<lparr>google_id := Some (g_google_id gd),
                                       last_login := Some (utc_login clk),
                                       updated_at := Some (db_login clk)\<rparr>])
         \<and> map_of resp ''user'' = Some (VDict
                [(''id'', VStr (user_id (db ! i))), (''email'', VStr (email (db ! i))),
                 (''full_name'', opt_str (full_name (db ! i))),
                 (''avatar_url'', opt_str (avatar_url (db ! i))),
                 (''is_verified'', VBool (is_verified (db ! i))),
                 (''is_premium'', VBool (is_premium (db ! i)))])"
proof -
  let ?u0 = "(db ! i)\<lparr>google_id := Some (g_google_id gd), updated_at := Some (db_link clk)\<rparr>"
  have d: "distinct (map user_id db)" using ok by (simp add: db_ok_def)
  have d1: "distinct (map user_id (db[i := ?u0]))"
    using d i(1) by (simp add: distinct_ids_list_update)
  have l: "i < length (db[i := ?u0])" using i(1) by simp
  have nth_i: "db[i := ?u0] ! i = ?u0" using i(1) by simp
  from authenticate_via_resolve [OF v resolve_user_by_email [OF ok n i]
      update_user_login_nth [OF d1 l nth_i]]
  show ?thesis by simp
qed

lemma sign_in_new:
  assumes v: "verify_google_token google cfg tok = Inr gd" and ok: "db_ok db"
    and n: "Some (g_google_id gd) \<notin> google_id ` set db"
    and e: "g_email gd \<notin> email ` set db" and f: "new_id \<notin> user_id ` set db"
  shows "\<exists>resp u. authenticate_with_google google cfg clk new_id db tok = Inr (resp, db @ [u])
           \<and> user_id u = new_id \<and> email u = g_email gd
           \<and> full_name u = g_full_name gd \<and> avatar_url u = g_avatar_url gd
           \<and> google_id u = Some (g_google_id gd)
           \<and> is_verified u = g_email_verified gd \<and> is_active u \<and> \<not> is_premium u
           \<and> created_at u = Some (db_insert clk) \<and> last_login u = Some (utc_login clk)
           \<and> map_of resp ''user'' = Some (VDict
                [(''id'', VStr (user_id u)), (''email'', VStr (email u)),
                 (''full_name'', opt_str (full_name u)),
                 (''avatar_url'', opt_str (avatar_url u)),
                 (''is_verified'', VBool (is_verified u)),
                 (''is_premium'', VBool (is_premium u))])"
proof -
  from create_user_from_google_fresh [OF n e f, of "utc_create clk" "db_insert clk"]
  obtain u0 where c: "create_user_from_google (utc_create clk) (db_insert clk) new_id db gd
        = Inr (u0, db @ [u0])"
    and u0: "user_id u0 = new_id" "email u0 = g_email gd" "full_name u0 = g_full_name gd"
      "avatar_url u0 = g_avatar_url gd" "google_id u0 = Some (g_google_id gd)"
      "is_verified u0 = g_email_verified gd" "is_active u0" "\<not> is_premium u0"
      "created_at u0 = Some (db_insert clk)"
    by blast
  have r: "resolve_user clk new_id db gd = Inr (u0, db @ [u0])"
    using resolve_user_new [OF ok n e] c by simp
  have d: "distinct (map user_id (db @ [u0]))"
    using ok f u0(1) by (simp add: db_ok_def)
  have l: "length db < length (db @ [u0])" by simp
  have nth_i: "(db @ [u0]) ! length db = u0" by simp
  let ?u = "u0\<lparr>last_login := Some (utc_login clk), updated_at := Some (db_login clk)\<rparr>"
  from authenticate_via_resolve [OF v r update_user_login_nth [OF d l nth_i]]
  obtain resp where R: "authenticate_with_google google cfg clk new_id db tok
        = Inr (resp, (db @ [u0])[length db := ?u])"
    and U: "map_of resp ''user'' = Some (VDict
                [(''id'', VStr (user_id ?u)), (''email'', VStr (email ?u)),
                 (''full_name'', opt_str (full_name ?u)),
                 (''avatar_url'', opt_str (avatar_url ?u)),
                 (''is_verified'', VBool (is_verified ?u)),
                 (''is_premium'', VBool (is_premium ?u))])"
    by blast
  have "(db @ [u0])[length db := ?u] = db @ [?u]" by simp
  with R have R': "authenticate_with_google google cfg clk new_id db tok = Inr (resp, db @ [?u])"
    by simp
  show ?thesis
    apply (rule exI [of _ resp])
    apply (rule exI [of _ ?u])
    using R' U u0 by simp
qed

lemmas sign_in_defs = authenticate_with_google_def verify_google_token_def example_google_def
  resolve_user_def get_user_by_google_id_def get_user_by_email_def scalar_one_or_none_def
  update_user_login_def sql_update_def create_user_from_google_def create_access_token_def
  create_refresh_token_def jwt_encode_def dict_update_def example_clock_def
  example_settings_def alice_def bob_def Let_def opt_str_def

text \<open>
  C2. User resolution, for a verified identity, a table that satisfies its unique
  constraints and a fresh id: (1) a user who has the \<^verbatim>\<open>google_id\<close> is used, and only
  the login time of that row is updated; (2) otherwise a user who has the e-mail
  address gets the \<^verbatim>\<open>google_id\<close> linked, in place, so the table keeps its length;
  (3) otherwise exactly one row is appended, created with \<^verbatim>\<open>is_verified\<close> from the
  provider's flag and \<^verbatim>\<open>last_login\<close> at the time of creation; (4) in every case the
  sign-in succeeds and the resolved user, the one of the response, has \<^verbatim>\<open>last_login\<close>
  set to the reading of the clock taken by the login update.
\<close>

theorem authenticate_with_google_resolution:
  assumes v: "verify_google_token google cfg tok = Inr gd" and ok: "db_ok db"
    and f: "new_id \<notin> user_id ` set db"
  shows "(i < length db \<and> google_id (db ! i) = Some (g_google_id gd) \<longrightarrow>
           (\<exists>resp. authenticate_with_google google cfg clk new_id db tok =
              Inr (resp, db[i := (db ! i)\<lparr>last_login := Some (utc_login clk),
                                          updated_at := Some (db_login clk)\<rparr>])))
       \<and> (Some (g_google_id gd) \<notin> google_id ` set db \<and> i < length db
            \<and> email (db ! i) = g_email gd \<longrightarrow>
           (\<exists>resp. authenticate_with_google google cfg clk new_id db tok =
              Inr (resp, db[i := (db ! i)\<lparr>google_id := Some (g_google_id gd),
                                          last_login := Some (utc_login clk),
                                          updated_at := Some (db_login clk)\<rparr>])))
       \<and> (Some (g_google_id gd) \<notin> google_id ` set db \<and> g_email gd \<notin> email ` set db \<longrightarrow>
           (\<exists>u0. create_user_from_google (utc_create clk) (db_insert clk) new_id db gd
                   = Inr (u0, db @ [u0])
                \<and> is_verified u0 = g_email_verified gd
                \<and> last_login u0 = Some (utc_create clk))
         \<and> (\<exists>resp u. authenticate_with_google google cfg clk new_id db tok
                   = Inr (resp, db @ [u])
                \<and> user_id u = new_id \<and> email u = g_email gd
                \<and> google_id u = Some (g_google_id gd)
                \<and> is_verified u = g_email_verified gd
                \<and> last_login u = Some (utc_login clk)))
       \<and> (\<exists>resp db' u. authenticate_with_google google cfg clk new_id db tok = Inr (resp, db')
            \<and> u \<in> set db' \<and> google_id u = Some (g_google_id gd)
            \<and> last_login u = Some (utc_login clk)
            \<and> map_of resp ''user'' = Some (VDict
                [(''id'', VStr (user_id u)), (''email'', VStr (email u)),
                 (''full_name'', opt_str (full_name u)),
                 (''avatar_url'', opt_str (avatar_url u)),
                 (''is_verified'', VBool (is_verified u)),
                 (''is_premium'', VBool (is_premium u))]))"
proof -
  let ?R = "authenticate_with_google google cfg clk new_id db tok"
  let ?g = "g_google_id gd"
  let ?proj = "\<lambda>u. Some (VDict
                [(''id'', VStr (user_id u)), (''email'', VStr (email u)),
                 (''full_name'', opt_str (full_name u)),
                 (''avatar_url'', opt_str (avatar_url u)),
                 (''is_verified'', VBool (is_verified u)),
                 (''is_premium'', VBool (is_premium u))])"
  have s1: "i < length db \<and> google_id (db ! i) = Some ?g \<longrightarrow>
           (\<exists>resp. ?R = Inr (resp, db[i := (db ! i)\<lparr>last_login := Some (utc_login clk),
                                          updated_at := Some (db_login clk)\<rparr>]))"
    using sign_in_by_google_id [OF v ok, of i clk new_id] by blast
  have s2: "Some ?g \<notin> google_id ` set db \<and> i < length db \<and> email (db ! i) = g_email gd \<longrightarrow>
           (\<exists>resp. ?R = Inr (resp, db[i := (db ! i)\<lparr>google_id := Some ?g,
                                          last_login := Some (utc_login clk),
                                          updated_at := Some (db_login clk)\<rparr>]))"
    using sign_in_by_email [OF v ok, of i clk new_id] by blast
  have s3: "Some ?g \<notin> google_id ` set db \<and> g_email gd \<notin> email ` set db \<longrightarrow>
           (\<exists>u0. create_user_from_google (utc_create clk) (db_insert clk) new_id db gd
                   = Inr (u0, db @ [u0])
                \<and> is_verified u0 = g_email_verified gd
                \<and> last_login u0 = Some (utc_create clk))
         \<and> (\<exists>resp u. ?R = Inr (resp, db @ [u])
                \<and> user_id u = new_id \<and> email u = g_email gd
                \<and> google_id u = Some ?g
                \<and> is_verified u = g_email_verified gd
                \<and> last_login u = Some (utc_login clk))"
  proof (intro impI, elim conjE)
    assume n: "Some ?g \<notin> google_id ` set db" and e: "g_email gd \<notin> email ` set db"
    from create_user_from_google_fresh [OF n e f, of "utc_create clk" "db_insert clk"]
    have a: "\<exists>u0. create_user_from_google (utc_create clk) (db_insert clk) new_id db gd
                   = Inr (u0, db @ [u0])
                \<and> is_verified u0 = g_email_verified gd
                \<and> last_login u0 = Some (utc_create clk)" by blast
    from sign_in_new [OF v ok n e f, of clk]
    have b: "\<exists>resp u. ?R = Inr (resp, db @ [u])
                \<and> user_id u = new_id \<and> email u = g_email gd
                \<and> google_id u = Some ?g
                \<and> is_verified u = g_email_verified gd
                \<and> last_login u = Some (utc_login clk)" by blast
    from a b show "(\<exists>u0. create_user_from_google (utc_create clk) (db_insert clk) new_id db gd
                   = Inr (u0, db @ [u0])
                \<and> is_verified u0 = g_email_verified gd
                \<and> last_login u0 = Some (utc_create clk))
         \<and> (\<exists>resp u. ?R = Inr (resp, db @ [u])
                \<and> user_id u = new_id \<and> email u = g_email gd
                \<and> google_id u = Some ?g
                \<and> is_verified u = g_email_verified gd
                \<and> last_login u = Some (utc_login clk))" by (rule conjI)
  qed
  have s4: "\<exists>resp db' u. ?R = Inr (resp, db')
            \<and> u \<in> set db' \<and> google_id u = Some ?g
            \<and> last_login u = Some (utc_login clk) \<and> map_of resp ''user'' = ?proj u"
  proof (cases "Some ?g \<in> google_id ` set db")
    case True
    then obtain j where j: "j < length db" "google_id (db ! j) = Some ?g"
      by (metis imageE in_set_conv_nth)
    let ?u = "(db ! j)\<lparr>last_login := Some (utc_login clk), updated_at := Some (db_login clk)\<rparr>"
    from sign_in_by_google_id [OF v ok j, of clk new_id]
    obtain resp where "?R = Inr (resp, db[j := ?u])" "map_of resp ''user'' = ?proj ?u"
      by auto
    moreover have "?u \<in> set (db[j := ?u])" using j(1) by (simp add: set_update_memI)
    moreover have "google_id ?u = Some ?g" "last_login ?u = Some (utc_login clk)"
      using j(2) by simp_all
    ultimately show ?thesis by blast
  next
    case False
    show ?thesis
    proof (cases "g_email gd \<in> email ` set db")
      case True
      then obtain j where j: "j < length db" "email (db ! j) = g_email gd"
        by (metis imageE in_set_conv_nth)
      let ?u = "(db ! j)\<lparr>google_id := Some ?g, last_login := Some (utc_login clk),
                          updated_at := Some (db_login clk)\<rparr>"
      from sign_in_by_email [OF v ok False j, of clk new_id]
      obtain resp where "?R = Inr (resp, db[j := ?u])" "map_of resp ''user'' = ?proj ?u"
        by auto
      moreover have "?u \<in> set (db[j := ?u])" using j(1) by (simp add: set_update_memI)
      moreover have "google_id ?u = Some ?g" "last_login ?u = Some (utc_login clk)"
        by simp_all
      ultimately show ?thesis by blast
    next
      case e: False
      from sign_in_new [OF v ok False e f, of clk]
      obtain resp u where "?R = Inr (resp, db @ [u])" "google_id u = Some ?g"
        "last_login u = Some (utc_login clk)" "map_of resp ''user'' = ?proj u"
        by blast
      moreover have "u \<in> set (db @ [u])" by simp
      ultimately show ?thesis by blast
    qed
  qed
  from s1 s2 s3 s4 show ?thesis by (intro conjI)
qed

lemma alice_identity:
  "verify_google_token example_google example_settings ''tok-alice'' =
     Inr \<lparr>g_google_id = ''g-alice'', g_email = ''alice@a.example'',
          g_full_name = Some ''Alice G'', g_avatar_url = Some ''https://p.example/a.png'',
          g_email_verified = True\<rparr>"
  by (simp add: verify_google_token_def example_google_def)

lemma db_ok_example: "db_ok [alice, bob]"
  by (simp add: db_ok_def alice_def bob_def)

theorem authenticate_with_google_resolution_witness:
  "verify_google_token example_google example_settings ''tok-alice'' =
     Inr \<lparr>g_google_id = ''g-alice'', g_email = ''alice@a.example'',
          g_full_name = Some ''Alice G'', g_avatar_url = Some ''https://p.example/a.png'',
          g_email_verified = True\<rparr>
   \<and> db_ok [alice, bob] \<and> ''33333333-3333-4333-8333-333333333333'' \<notin> user_id ` set [alice, bob]
   \<and> Some ''g-alice'' \<notin> google_id ` set [alice, bob]
   \<and> (0::nat) < length [alice, bob] \<and> email ([alice, bob] ! 0) = ''alice@a.example''
   \<and> (\<exists>resp. authenticate_with_google example_google example_settings example_clock ''33333333-3333-4333-8333-333333333333''
                [alice, bob] ''tok-alice'' =
              Inr (resp, [alice\<lparr>google_id := Some ''g-alice'', last_login := Some 1001,
                                 updated_at := Some 1001\<rparr>, bob]))"
proof -
  have f: "''33333333-3333-4333-8333-333333333333'' \<notin> user_id ` set [alice, bob]" by (simp add: alice_def bob_def)
  have n: "Some ''g-alice'' \<notin> google_id ` set [alice, bob]" by (simp add: alice_def bob_def)
  have i: "(0::nat) < length [alice, bob]" by simp
  have e: "email ([alice, bob] ! 0) = ''alice@a.example''" by (simp add: alice_def)
  from authenticate_with_google_resolution [OF alice_identity db_ok_example f,
      of 0 example_clock] n i e
  have "\<exists>resp. authenticate_with_google example_google example_settings example_clock ''33333333-3333-4333-8333-333333333333''
                [alice, bob] ''tok-alice'' =
              Inr (resp, [alice, bob][0 := ([alice, bob] ! 0)\<lparr>google_id := Some ''g-alice'',
                     last_login := Some (utc_login example_clock),
                     updated_at := Some (db_login example_clock)\<rparr>])"
    by simp
  then have "\<exists>resp. authenticate_with_google example_google example_settings example_clock ''33333333-3333-4333-8333-333333333333''
                [alice, bob] ''tok-alice'' =
              Inr (resp, [alice\<lparr>google_id := Some ''g-alice'', last_login := Some 1001,
                                 updated_at := Some 1001\<rparr>, bob])"
    by (simp add: example_clock_def)
  with alice_identity db_ok_example f n i e show ?thesis by (intro conjI)
qed

text \<open>
  C10 as stated fails: linking Alice's account also changes \<^verbatim>\<open>updated_at\<close>, which
  the schema sets on every update, so putting back \<^verbatim>\<open>google_id\<close> and \<^verbatim>\<open>last_login\<close>
  alone does not give back her record.
\<close>

theorem google_link_changes_updated_at:
  "get_user_by_google_id [alice, bob] ''g-alice'' = Inr None
   \<and> get_user_by_email [alice, bob] ''alice@a.example'' = Inr (Some alice)
   \<and> \<not> isl (authenticate_with_google example_google example_settings example_clock ''33333333-3333-4333-8333-333333333333''
              [alice, bob] ''tok-alice'')
   \<and> user_id (hd (snd (projr (authenticate_with_google example_google example_settings
         example_clock ''33333333-3333-4333-8333-333333333333'' [alice, bob] ''tok-alice'')))) = user_id alice
   \<and> (hd (snd (projr (authenticate_with_google example_google example_settings
         example_clock ''33333333-3333-4333-8333-333333333333'' [alice, bob] ''tok-alice''))))
        \<lparr>google_id := google_id alice, last_login := last_login alice\<rparr> \<noteq> alice
   \<and> updated_at alice = None
   \<and> updated_at (hd (snd (projr (authenticate_with_google example_google example_settings
         example_clock ''33333333-3333-4333-8333-333333333333'' [alice, bob] ''tok-alice'')))) = Some 1001"
  by (simp add: sign_in_defs)

text \<open>
  C10, amended. Frame of the linking step: when the identity matches an existing user
  by e-mail only, the table keeps its length, every other row is unchanged, and on the
  matched row exactly \<^verbatim>\<open>google_id\<close>, \<^verbatim>\<open>last_login\<close> and the automatically maintained
  \<^verbatim>\<open>updated_at\<close> are written: putting those three back gives the original row. In
  particular e-mail, name, avatar and the three flags are unchanged, so the
  provider's name, picture and e-mail-verified flag are not written onto the row.
\<close>

theorem google_link_frame:
  assumes v: "verify_google_token google cfg tok = Inr gd" and ok: "db_ok db"
    and n: "Some (g_google_id gd) \<notin> google_id ` set db"
    and i: "i < length db" "email (db ! i) = g_email gd"
  shows "\<exists>resp db'. authenticate_with_google google cfg clk new_id db tok = Inr (resp, db')
       \<and> length db' = length db
       \<and> (\<forall>j. j < length db \<and> j \<noteq> i \<longrightarrow> db' ! j = db ! j)
       \<and> (db' ! i)\<lparr>google_id := google_id (db ! i), last_login := last_login (db ! i),
                    updated_at := updated_at (db ! i)\<rparr> = db ! i
       \<and> google_id (db' ! i) = Some (g_google_id gd)
       \<and> last_login (db' ! i) = Some (utc_login clk)
       \<and> updated_at (db' ! i) = Some (db_login clk)
       \<and> user_id (db' ! i) = user_id (db ! i) \<and> email (db' ! i) = email (db ! i)
       \<and> full_name (db' ! i) = full_name (db ! i) \<and> avatar_url (db' ! i) = avatar_url (db ! i)
       \<and> is_verified (db' ! i) = is_verified (db ! i)
       \<and> is_premium (db' ! i) = is_premium (db ! i)
       \<and> is_active (db' ! i) = is_active (db ! i)"
proof -
  let ?u = "(db ! i)\<lparr>google_id := Some (g_google_id gd), last_login := Some (utc_login clk),
                      updated_at := Some (db_login clk)\<rparr>"
  from sign_in_by_email [OF v ok n i, of clk new_id]
  obtain resp where R: "authenticate_with_google google cfg clk new_id db tok
      = Inr (resp, db[i := ?u])" by blast
  have nth_i: "db[i := ?u] ! i = ?u" using i(1) by simp
  have others: "\<forall>j. j < length db \<and> j \<noteq> i \<longrightarrow> db[i := ?u] ! j = db ! j" by simp
  have restored: "?u\<lparr>google_id := google_id (db ! i), last_login := last_login (db ! i),
                    updated_at := updated_at (db ! i)\<rparr> = db ! i" by simp
  show ?thesis
    apply (rule exI [of _ resp])
    apply (rule exI [of _ "db[i := ?u]"])
    using R others restored by (simp add: nth_i)
qed

theorem google_link_frame_witness:
  "verify_google_token example_google example_settings ''tok-alice'' =
     Inr \<lparr>g_google_id = ''g-alice'', g_email = ''alice@a.example'',
          g_full_name = Some ''Alice G'', g_avatar_url = Some ''https://p.example/a.png'',
          g_email_verified = True\<rparr>
   \<and> db_ok [alice, bob]
   \<and> Some ''g-alice'' \<notin> google_id ` set [alice, bob]
   \<and> (0::nat) < length [alice, bob] \<and> email ([alice, bob] ! 0) = ''alice@a.example''
   \<and> (\<exists>resp db'. authenticate_with_google example_google example_settings example_clock ''33333333-3333-4333-8333-333333333333''
                [alice, bob] ''tok-alice'' = Inr (resp, db')
         \<and> length db' = length [alice, bob]
         \<and> full_name (db' ! 0) = Some ''Alice'' \<and> avatar_url (db' ! 0) = None
         \<and> is_verified (db' ! 0) = False)"
proof -
  have n: "Some ''g-alice'' \<notin> google_id ` set [alice, bob]" by (simp add: alice_def bob_def)
  have i: "(0::nat) < length [alice, bob]" by simp
  have e: "email ([alice, bob] ! 0) = ''alice@a.example''" by (simp add: alice_def)
  from google_link_frame [OF alice_identity db_ok_example, of 0 example_clock "''33333333-3333-4333-8333-333333333333''"] n i e
  obtain resp db' where R: "authenticate_with_google example_google example_settings
        example_clock ''33333333-3333-4333-8333-333333333333'' [alice, bob] ''tok-alice'' = Inr (resp, db')"
    and l: "length db' = length [alice, bob]"
    and fr: "full_name (db' ! 0) = full_name ([alice, bob] ! 0)"
       "avatar_url (db' ! 0) = avatar_url ([alice, bob] ! 0)"
       "is_verified (db' ! 0) = is_verified ([alice, bob] ! 0)"
    by auto
  from fr have fr': "full_name (db' ! 0) = Some ''Alice''" "avatar_url (db' ! 0) = None"
       "is_verified (db' ! 0) = False"
    by (simp_all add: alice_def)
  from R l fr' have "\<exists>resp db'. authenticate_with_google example_google example_settings
        example_clock ''33333333-3333-4333-8333-333333333333'' [alice, bob] ''tok-alice'' = Inr (resp, db')
         \<and> length db' = length [alice, bob]
         \<and> full_name (db' ! 0) = Some ''Alice'' \<and> avatar_url (db' ! 0) = None
         \<and> is_verified (db' ! 0) = False" by blast
  with alice_identity db_ok_example n i e show ?thesis by (intro conjI)
qed

text \<open>
  C1 on the code. Bob is inactive and has a linked Google account. A valid Google token
  for that account signs him in: \<open>authenticate_with_google\<close> returns a token pair. The
  other two flows test \<^verbatim>\<open>is_active\<close>; this one does not.
\<close>

theorem inactive_user_signs_in_with_google:
  "\<not> is_active bob \<and> bob \<in> set [alice, bob] \<and> google_id bob = Some ''g-bob''
   \<and> verify_google_token example_google example_settings ''tok-bob'' =
       Inr \<lparr>g_google_id = ''g-bob'', g_email = ''bob@b.example'',
            g_full_name = Some ''Robert'', g_avatar_url = None, g_email_verified = True\<rparr>
   \<and> \<not> isl (authenticate_with_google example_google example_settings example_clock ''33333333-3333-4333-8333-333333333333''
              [alice, bob] ''tok-bob'')
   \<and> map fst (fst (projr (authenticate_with_google example_google example_settings
         example_clock ''33333333-3333-4333-8333-333333333333'' [alice, bob] ''tok-bob'')))
       = [''access_token'', ''refresh_token'', ''token_type'', ''user'']
   \<and> map_of (fst (projr (authenticate_with_google example_google example_settings
         example_clock ''33333333-3333-4333-8333-333333333333'' [alice, bob] ''tok-bob''))) ''access_token''
       = Some (VToken (create_access_token example_settings 1002
                 [(''sub'', JStr ''22222222-2222-4222-8222-222222222222''), (''email'', JStr ''bob@b.example'')] None))
   \<and> map_of (fst (projr (authenticate_with_google example_google example_settings
         example_clock ''33333333-3333-4333-8333-333333333333'' [alice, bob] ''tok-bob''))) ''refresh_token''
       = Some (VToken (create_refresh_token example_settings 1003 [(''sub'', JStr ''22222222-2222-4222-8222-222222222222'')]))"
  by (simp add: sign_in_defs)

end
